theory Spec2Isabelle
  imports Main "HOL-Library.Sublist" "HOL-Library.Word"
begin

section \<open>Data model of \<^verbatim>\<open>front-end/assets/script.js\<close>\<close>

text \<open>
  The class \<^verbatim>\<open>TodoApp\<close> keeps four fields of view state (\<^verbatim>\<open>currentProject\<close>,
  \<^verbatim>\<open>projects\<close>, \<^verbatim>\<open>todos\<close>, \<^verbatim>\<open>currentFilter\<close>) and works on a handful of DOM elements
  and on the remote API object \<^verbatim>\<open>this.api\<close>. All of it is one record here; every method
  takes the record and returns the updated one.

  Identifiers arrive in JSON records, so an identifier is a number or a string. The
  constructors are distinct, as \<^verbatim>\<open>===\<close> keeps a number and a string apart.
\<close>

datatype jsid = IdNum int | IdStr string

text \<open>
  A JavaScript string is a sequence of UTF-16 code units. The text the user types and the
  text of a todo are kept that way, since \<^verbatim>\<open>trim\<close> looks at code units far above 255. The
  other strings of the program (filter names, messages, option values) are only compared
  with each other and with literals, and are \<open>string\<close> here.
\<close>

type_synonym code_unit = "16 word"

type_synonym jstext = "code_unit list"

record project =
  project_id :: jsid
  project_name :: string

record todo =
  todo_id :: jsid
  todo_text :: jstext
  todo_completed :: bool

text \<open>A rejected promise of the API client; the controller reads nothing from it.\<close>

datatype api_error = ApiFailure

text \<open>
  The external API client, one field per endpoint the controller calls. A field gives
  the outcome of the awaited call for the arguments the controller passes; \<open>Inl\<close> is a
  rejected promise. \<^verbatim>\<open>this.currentProject\<close> is passed as it is, so it may be \<^verbatim>\<open>null\<close>
  (\<open>None\<close>) where the method does not test it first.
\<close>

record api =
  api_getProjects :: "api_error + project list"
  api_createProject :: "string \<Rightarrow> api_error + project"
  api_deleteProject :: "string option \<Rightarrow> api_error + unit"
  api_getTodos :: "string \<Rightarrow> api_error + todo list"
  api_createTodo :: "string option \<Rightarrow> jstext \<Rightarrow> bool \<Rightarrow> api_error + todo"
  api_updateTodo :: "string option \<Rightarrow> jsid \<Rightarrow> bool \<Rightarrow> api_error + todo"
  api_deleteTodo :: "string option \<Rightarrow> jsid \<Rightarrow> api_error + unit"

text \<open>The requests the controller has issued, in order, with their arguments.\<close>

datatype api_call =
    GetProjects
  | CreateProject string
  | DeleteProject "string option"
  | GetTodos string
  | CreateTodo "string option" jstext bool
  | UpdateTodo "string option" jsid bool
  | DeleteTodo "string option" jsid

text \<open>
  One row of \<^verbatim>\<open>todoList.innerHTML\<close> as \<^verbatim>\<open>render\<close> writes it: the \<^verbatim>\<open>completed\<close> class
  and the \<^verbatim>\<open>checked\<close> attribute (both from \<^verbatim>\<open>todo.completed\<close>), the text interpolated as
  the argument of \<^verbatim>\<open>toggleTodo\<close> and of \<^verbatim>\<open>deleteTodo\<close>, and the span's text.
\<close>

record row =
  row_completed :: bool
  row_checked :: bool
  row_toggle_arg :: string
  row_text :: jstext
  row_delete_arg :: string

text \<open>
  An element made by \<^verbatim>\<open>document.createElement\<close>. \<open>elem_ref\<close> stands for the object's
  identity, which the timer's closure holds.
\<close>

record element =
  elem_ref :: nat
  elem_className :: string
  elem_textContent :: string

record state =
  currentProject :: "string option"
  projects :: "project list"
  todos :: "todo list"
  currentFilter :: string
  todoInput_value :: jstext
  projectSelect_value :: string
  projectSelect_options :: "(string \<times> string) list"
  todoContent_hidden :: bool
  loadingIndicator_hidden :: bool
  filterButtons :: "(string \<times> bool) list"
  todoList_rows :: "row list"
  taskCount_text :: string
  before_todoList :: "element list"
  timers :: "(nat \<times> nat) list"
  clock :: nat
  next_ref :: nat
  api_log :: "api_call list"

text \<open>
  \<open>before_todoList\<close> holds the elements inserted immediately before the list element, in
  document order. \<open>timers\<close> holds the pending \<^verbatim>\<open>setTimeout\<close> callbacks of \<^verbatim>\<open>showError\<close>, each
  as the time it is due (milliseconds on \<open>clock\<close>) and the element it removes.
  \<open>filterButtons\<close> pairs each button's \<^verbatim>\<open>data-filter\<close> with its \<^verbatim>\<open>active\<close> class.
\<close>

section \<open>String conversions\<close>

definition digit_char :: "nat \<Rightarrow> char" where
  "digit_char d = ''0123456789'' ! d"

text \<open>Decimal digits of a natural number, as a template literal prints a count.\<close>

function show_nat :: "nat \<Rightarrow> string" where
  "show_nat n = (if n < 10 then [digit_char n] else show_nat (n div 10) @ [digit_char (n mod 10)])"
  by pat_completeness auto
termination
  by (relation "measure (\<lambda>n. n)") auto

declare show_nat.simps [simp del]

definition show_int :: "int \<Rightarrow> string" where
  "show_int i = (if i < 0 then CHR ''-'' # show_nat (nat (- i)) else show_nat (nat i))"

text \<open>\<^verbatim>\<open>${id}\<close> in a template literal, and the string a select element stores as its value.\<close>

fun to_string :: "jsid \<Rightarrow> string" where
  "to_string (IdNum i) = show_int i"
| "to_string (IdStr s) = s"

text \<open>
  \<^verbatim>\<open>String.prototype.trim\<close> strips white space and line terminators from both ends:
  U+0009 to U+000D, U+0020, U+00A0, U+1680, U+2000 to U+200A, U+2028, U+2029, U+202F,
  U+205F, U+3000 and U+FEFF. All of them are single code units.
\<close>

definition is_ws :: "code_unit \<Rightarrow> bool" where
  "is_ws c =
     (let n = unat c
      in (9 \<le> n \<and> n \<le> 13) \<or> n = 32 \<or> n = 160 \<or> n = 5760
         \<or> (8192 \<le> n \<and> n \<le> 8202) \<or> n = 8232 \<or> n = 8233 \<or> n = 8239
         \<or> n = 8287 \<or> n = 12288 \<or> n = 65279)"

definition trim :: "jstext \<Rightarrow> jstext" where
  "trim s = rev (dropWhile is_ws (rev (dropWhile is_ws s)))"

text \<open>The JavaScript string literal with the given characters, each below U+0100.\<close>

definition js_text :: "string \<Rightarrow> jstext" where
  "js_text str = map (\<lambda>c. of_nat (of_char c)) str"

text \<open>Reading the digits back: the value a decimal numeral denotes.\<close>

definition digit_val :: "char \<Rightarrow> nat" where
  "digit_val c = of_char c - 48"

definition read_nat :: "string \<Rightarrow> nat" where
  "read_nat s = foldl (\<lambda>a c. 10 * a + digit_val c) 0 s"

section \<open>Rendering\<close>

text \<open>\<^verbatim>\<open>getFilteredTodos\<close>: the switch on \<^verbatim>\<open>this.currentFilter\<close>.\<close>

definition getFilteredTodos :: "state \<Rightarrow> todo list" where
  "getFilteredTodos s =
     (if currentFilter s = ''active'' then filter (\<lambda>t. \<not> todo_completed t) (todos s)
      else if currentFilter s = ''completed'' then filter (\<lambda>t. todo_completed t) (todos s)
      else todos s)"

definition render_row :: "todo \<Rightarrow> row" where
  "render_row t =
     \<lparr> row_completed = todo_completed t,
       row_checked = todo_completed t,
       row_toggle_arg = to_string (todo_id t),
       row_text = todo_text t,
       row_delete_arg = to_string (todo_id t) \<rparr>"

definition count_text :: "nat \<Rightarrow> string" where
  "count_text n = show_nat n @ '' task'' @ (if n \<noteq> 1 then ''s'' else '''') @ '' left''"

definition render :: "state \<Rightarrow> state" where
  "render s =
     (let filteredTodos = getFilteredTodos s;
          activeTodos = length (filter (\<lambda>t. \<not> todo_completed t) (todos s))
      in s\<lparr> todoList_rows := map render_row filteredTodos,
            taskCount_text := count_text activeTodos \<rparr>)"

section \<open>The controller's methods\<close>

text \<open>
  Each asynchronous method is one atomic step: the state when it is called, the outcome
  of its awaited call (read from the \<open>api\<close> record), the state when it has returned.
  \<^verbatim>\<open>try\<close>/\<^verbatim>\<open>catch\<close>/\<^verbatim>\<open>finally\<close> becomes a case on the outcome, followed by
  \<open>showLoading False\<close>. Statements before the \<^verbatim>\<open>await\<close> run in both branches.

  \<^verbatim>\<open>toggleTheme\<close> and \<^verbatim>\<open>updateTheme\<close> work on the document's theme attribute, on local
  storage and on the toggle's icon only; none of these is part of the state here.
\<close>

text \<open>\<^verbatim>\<open>!v\<close> for a value that is \<^verbatim>\<open>null\<close> or a string.\<close>

definition falsy :: "string option \<Rightarrow> bool" where
  "falsy v = (v = None \<or> v = Some '''')"

text \<open>\<^verbatim>\<open>p.id === v\<close> for an identifier and a value that is \<^verbatim>\<open>null\<close> or a string.\<close>

definition strict_eq :: "jsid \<Rightarrow> string option \<Rightarrow> bool" where
  "strict_eq i v = (case v of None \<Rightarrow> False | Some str \<Rightarrow> i = IdStr str)"

definition showLoading :: "bool \<Rightarrow> state \<Rightarrow> state" where
  "showLoading show s = s\<lparr> loadingIndicator_hidden := \<not> show \<rparr>"

text \<open>Issuing a request: the call is appended to the log.\<close>

definition request :: "api_call \<Rightarrow> state \<Rightarrow> state" where
  "request c s = s\<lparr> api_log := api_log s @ [c] \<rparr>"

text \<open>
  \<^verbatim>\<open>showError\<close>: a new element of class \<^verbatim>\<open>error\<close> with the message, inserted
  \<^verbatim>\<open>beforebegin\<close> of the list (so after every element inserted there earlier), and a
  timer of 3000 ms that removes it.
\<close>

definition showError :: "string \<Rightarrow> state \<Rightarrow> state" where
  "showError message s =
     (let error = \<lparr> elem_ref = next_ref s, elem_className = ''error'',
                    elem_textContent = message \<rparr>
      in s\<lparr> before_todoList := before_todoList s @ [error],
            timers := timers s @ [(clock s + 3000, elem_ref error)],
            next_ref := Suc (next_ref s) \<rparr>)"

text \<open>
  The browser's side of \<^verbatim>\<open>setTimeout\<close>: when time passes, every timer that is due runs
  its callback \<^verbatim>\<open>error.remove()\<close> and leaves the queue.
\<close>

definition is_due :: "nat \<Rightarrow> nat \<times> nat \<Rightarrow> bool" where
  "is_due now t = (fst t \<le> now)"

definition run_timers :: "state \<Rightarrow> state" where
  "run_timers s =
     (let due = map snd (filter (is_due (clock s)) (timers s))
      in s\<lparr> before_todoList :=
              filter (\<lambda>e. elem_ref e \<notin> set due) (before_todoList s),
            timers := filter (\<lambda>t. \<not> is_due (clock s) t) (timers s) \<rparr>)"

definition advance :: "nat \<Rightarrow> state \<Rightarrow> state" where
  "advance ms s = run_timers (s\<lparr> clock := clock s + ms \<rparr>)"

text \<open>
  Assigning \<^verbatim>\<open>projectSelect.value\<close> (and the user choosing an option): the first option
  with that value becomes the selected one; with no such option none is selected and the
  value reads as the empty string.
\<close>

definition set_projectSelect_value :: "string \<Rightarrow> state \<Rightarrow> state" where
  "set_projectSelect_value v s =
     s\<lparr> projectSelect_value :=
          (if v \<in> set (map fst (projectSelect_options s)) then v else '''') \<rparr>"

text \<open>
  \<^verbatim>\<open>renderProjects\<close>: the placeholder option and one option per project. Replacing the
  options of the select leaves its first option, the placeholder, selected.
\<close>

definition renderProjects :: "state \<Rightarrow> state" where
  "renderProjects s =
     s\<lparr> projectSelect_options :=
          ('''', ''Select Project'') #
          map (\<lambda>p. (to_string (project_id p), project_name p)) (projects s),
        projectSelect_value := '''' \<rparr>"

definition loadProjects :: "api \<Rightarrow> state \<Rightarrow> state" where
  "loadProjects a s =
     (let s1 = request GetProjects (showLoading True s)
      in showLoading False
           (case api_getProjects a of
              Inr ps \<Rightarrow> renderProjects (s1\<lparr> projects := ps \<rparr>)
            | Inl e \<Rightarrow> showError ''Failed to load projects'' s1))"

definition changeProject :: "api \<Rightarrow> state \<Rightarrow> state" where
  "changeProject a s =
     (let projectId = projectSelect_value s
      in if projectId = '''' then s\<lparr> todoContent_hidden := True \<rparr>
         else
           (let s1 = (showLoading True s)\<lparr> currentProject := Some projectId \<rparr>;
                s2 = request (GetTodos projectId) s1
            in showLoading False
                 (case api_getTodos a projectId of
                    Inr ts \<Rightarrow> render (s2\<lparr> todos := ts, todoContent_hidden := False \<rparr>)
                  | Inl e \<Rightarrow> showError ''Failed to load todos'' s2)))"

text \<open>
  \<^verbatim>\<open>createProject\<close>; \<open>name\<close> is what \<^verbatim>\<open>prompt\<close> returned (\<^verbatim>\<open>null\<close> on cancel). The nested
  \<^verbatim>\<open>changeProject\<close> catches its own failure, so it never reaches the \<^verbatim>\<open>catch\<close> here.
\<close>

definition createProject :: "api \<Rightarrow> string option \<Rightarrow> state \<Rightarrow> state" where
  "createProject a name s =
     (case name of
        None \<Rightarrow> s
      | Some n \<Rightarrow>
          if n = '''' then s
          else
            (let s1 = request (CreateProject n) (showLoading True s)
             in showLoading False
                  (case api_createProject a n of
                     Inr project \<Rightarrow>
                       changeProject a
                         (set_projectSelect_value (to_string (project_id project))
                            (renderProjects (s1\<lparr> projects := projects s1 @ [project] \<rparr>)))
                   | Inl e \<Rightarrow> showError ''Failed to create project'' s1)))"

text \<open>
  \<^verbatim>\<open>deleteProject\<close>; \<open>confirmed\<close> is the answer to \<^verbatim>\<open>confirm\<close>, asked only when a project
  is current.
\<close>

definition deleteProject :: "api \<Rightarrow> bool \<Rightarrow> state \<Rightarrow> state" where
  "deleteProject a confirmed s =
     (if falsy (currentProject s) \<or> \<not> confirmed then s
      else
        (let s1 = request (DeleteProject (currentProject s)) (showLoading True s)
         in showLoading False
              (case api_deleteProject a (currentProject s) of
                 Inr u \<Rightarrow>
                   (renderProjects
                      (s1\<lparr> projects :=
                             filter (\<lambda>p. \<not> strict_eq (project_id p) (currentProject s1))
                               (projects s1),
                           currentProject := None \<rparr>))
                   \<lparr> todoContent_hidden := True \<rparr>
               | Inl e \<Rightarrow> showError ''Failed to delete project'' s1)))"

definition addTodo :: "api \<Rightarrow> state \<Rightarrow> state" where
  "addTodo a s =
     (let text = trim (todoInput_value s)
      in if text = [] \<or> falsy (currentProject s) then s
         else
           (let s1 = request (CreateTodo (currentProject s) text False) (showLoading True s)
            in showLoading False
                 (case api_createTodo a (currentProject s) text False of
                    Inr todo \<Rightarrow>
                      render (s1\<lparr> todos := todos s1 @ [todo], todoInput_value := [] \<rparr>)
                  | Inl e \<Rightarrow> showError ''Failed to add todo'' s1)))"

definition toggleTodo :: "api \<Rightarrow> jsid \<Rightarrow> state \<Rightarrow> state" where
  "toggleTodo a i s =
     (case find (\<lambda>t. todo_id t = i) (todos s) of
        None \<Rightarrow> s
      | Some todo \<Rightarrow>
          (let s1 = request (UpdateTodo (currentProject s) i (\<not> todo_completed todo))
                      (showLoading True s)
           in showLoading False
                (case api_updateTodo a (currentProject s) i (\<not> todo_completed todo) of
                   Inr updated \<Rightarrow>
                     render (s1\<lparr> todos :=
                                   map (\<lambda>t. if todo_id t = i then updated else t) (todos s1) \<rparr>)
                 | Inl e \<Rightarrow> showError ''Failed to update todo'' s1)))"

definition deleteTodo :: "api \<Rightarrow> jsid \<Rightarrow> state \<Rightarrow> state" where
  "deleteTodo a i s =
     (let s1 = request (DeleteTodo (currentProject s) i) (showLoading True s)
      in showLoading False
           (case api_deleteTodo a (currentProject s) i of
              Inr u \<Rightarrow> render (s1\<lparr> todos := filter (\<lambda>t. todo_id t \<noteq> i) (todos s1) \<rparr>)
            | Inl e \<Rightarrow> showError ''Failed to delete todo'' s1))"

definition setFilter :: "string \<Rightarrow> state \<Rightarrow> state" where
  "setFilter f s =
     render (s\<lparr> currentFilter := f,
               filterButtons := map (\<lambda>b. (fst b, fst b = f)) (filterButtons s) \<rparr>)"

text \<open>
  The constructor: the four fields are initialised and \<^verbatim>\<open>loadProjects\<close> is called. The
  argument state supplies the page as it was loaded.
\<close>

definition constructor :: "api \<Rightarrow> state \<Rightarrow> state" where
  "constructor a page =
     loadProjects a
       (page\<lparr> currentProject := None, projects := [], todos := [], currentFilter := ''all'' \<rparr>)"

section \<open>The documented filter values\<close>

text \<open>
  The specification's filter is one of three values, each with a predicate on todos.
  \<open>filter_name\<close> is the string the code compares \<^verbatim>\<open>currentFilter\<close> with.
\<close>

datatype filter_value = All | Active | Completed

fun filter_name :: "filter_value \<Rightarrow> string" where
  "filter_name All = ''all''"
| "filter_name Active = ''active''"
| "filter_name Completed = ''completed''"

fun spec_filter_pred :: "filter_value \<Rightarrow> todo \<Rightarrow> bool" where
  "spec_filter_pred All t = True"
| "spec_filter_pred Active t = (\<not> todo_completed t)"
| "spec_filter_pred Completed t = todo_completed t"

section \<open>Notions the properties are stated with\<close>

text \<open>The view state of the controller: its four fields.\<close>

definition view_state :: "state \<Rightarrow> string option \<times> project list \<times> todo list \<times> string" where
  "view_state s = (currentProject s, projects s, todos s, currentFilter s)"

text \<open>
  The white space of the language, one by one: tab, line feed, vertical tab, form feed,
  carriage return, space, no-break space, ogham space mark, the eleven spaces from en quad
  to hair space, line separator, paragraph separator, narrow no-break space, medium
  mathematical space, ideographic space, byte order mark.
\<close>

definition js_whitespace :: "code_unit list" where
  "js_whitespace =
     [0x0009, 0x000A, 0x000B, 0x000C, 0x000D, 0x0020, 0x00A0, 0x1680,
      0x2000, 0x2001, 0x2002, 0x2003, 0x2004, 0x2005, 0x2006, 0x2007, 0x2008, 0x2009, 0x200A,
      0x2028, 0x2029, 0x202F, 0x205F, 0x3000, 0xFEFF]"

text \<open>A text that is empty or holds white space only.\<close>

definition blank :: "jstext \<Rightarrow> bool" where
  "blank str = list_all (\<lambda>c. c \<in> set js_whitespace) str"

text \<open>
  One entry replaced, the rest in place: some position whose entry has the id \<open>i\<close> holds
  \<open>u\<close> afterwards, and the list is otherwise the same.
\<close>

definition one_entry_replaced :: "todo list \<Rightarrow> todo list \<Rightarrow> jsid \<Rightarrow> todo \<Rightarrow> bool" where
  "one_entry_replaced old new i u = (\<exists>j<length old. todo_id (old ! j) = i \<and> new = old[j := u])"

text \<open>The number of todos that are not completed.\<close>

definition remaining :: "state \<Rightarrow> nat" where
  "remaining s = length (filter (\<lambda>t. \<not> todo_completed t) (todos s))"

text \<open>
  Object identity: every element in the document and every element a pending timer
  holds was created earlier than the next one will be.
\<close>

definition refs_fresh :: "state \<Rightarrow> bool" where
  "refs_fresh s =
     (list_all (\<lambda>e. elem_ref e < next_ref s) (before_todoList s)
      \<and> list_all (\<lambda>t. snd t < next_ref s) (timers s))"

text \<open>The banner \<^verbatim>\<open>showError\<close> creates when the next element reference is \<open>r\<close>.\<close>

definition error_banner :: "nat \<Rightarrow> string \<Rightarrow> element" where
  "error_banner r message =
     \<lparr> elem_ref = r, elem_className = ''error'', elem_textContent = message \<rparr>"

text \<open>The elements whose removal is due at time \<open>now\<close>.\<close>

definition due_refs :: "nat \<Rightarrow> state \<Rightarrow> nat set" where
  "due_refs now s = snd ` {t \<in> set (timers s). fst t \<le> now}"

text \<open>
  What holds of every state the page can be in: references are fresh, and
  \<^verbatim>\<open>currentProject\<close> is \<^verbatim>\<open>null\<close> or a non-empty string.
\<close>

definition state_ok :: "state \<Rightarrow> bool" where
  "state_ok s = (refs_fresh s \<and> currentProject s \<noteq> Some '''')"

text \<open>
  The states the page can be in: the constructor runs on the loaded page, then the user
  types, chooses an option, waits, or triggers a bound method. The server may answer
  differently each time, so every step has its own \<open>api\<close>.
\<close>

inductive reachable :: "state \<Rightarrow> bool" where
  start: "refs_fresh page \<Longrightarrow> reachable (constructor a page)"
| typing: "reachable s \<Longrightarrow> reachable (s\<lparr> todoInput_value := v \<rparr>)"
| selecting: "reachable s \<Longrightarrow> reachable (set_projectSelect_value v s)"
| waiting: "reachable s \<Longrightarrow> reachable (advance ms s)"
| createProject: "reachable s \<Longrightarrow> reachable (createProject a name s)"
| deleteProject: "reachable s \<Longrightarrow> reachable (deleteProject a confirmed s)"
| changeProject: "reachable s \<Longrightarrow> reachable (changeProject a s)"
| addTodo: "reachable s \<Longrightarrow> reachable (addTodo a s)"
| toggleTodo: "reachable s \<Longrightarrow> reachable (toggleTodo a i s)"
| deleteTodo: "reachable s \<Longrightarrow> reachable (deleteTodo a i s)"
| setFilter: "reachable s \<Longrightarrow> reachable (setFilter f s)"

section \<open>Sample data\<close>

definition buy_milk :: todo where
  "buy_milk = \<lparr> todo_id = IdNum 1, todo_text = js_text ''Buy milk'', todo_completed = False \<rparr>"

definition call_bob :: todo where
  "call_bob = \<lparr> todo_id = IdNum 2, todo_text = js_text ''Call Bob'', todo_completed = True \<rparr>"

definition blank_page :: state where
  "blank_page =
     \<lparr> currentProject = None, projects = [], todos = [], currentFilter = ''all'',
       todoInput_value = [], projectSelect_value = '''',
       projectSelect_options = [('''', ''Select Project'')],
       todoContent_hidden = True, loadingIndicator_hidden = True,
       filterButtons = [(''all'', True), (''active'', False), (''completed'', False)],
       todoList_rows = [], taskCount_text = '''',
       before_todoList = [], timers = [], clock = 0, next_ref = 0, api_log = [] \<rparr>"

text \<open>A server that answers every call, with two projects; project 1 has two todos.\<close>

definition api_up :: api where
  "api_up =
     \<lparr> api_getProjects =
         Inr [\<lparr> project_id = IdNum 1, project_name = ''Work'' \<rparr>,
              \<lparr> project_id = IdNum 2, project_name = ''Home'' \<rparr>],
       api_createProject = (\<lambda>n. Inr \<lparr> project_id = IdNum 3, project_name = n \<rparr>),
       api_deleteProject = (\<lambda>p. Inr ()),
       api_getTodos = (\<lambda>p. Inr (if p = ''1'' then [buy_milk, call_bob] else [])),
       api_createTodo =
         (\<lambda>p t c. Inr \<lparr> todo_id = IdNum 7, todo_text = t, todo_completed = c \<rparr>),
       api_updateTodo =
         (\<lambda>p i c. Inr \<lparr> todo_id = i, todo_text = js_text ''Buy milk'', todo_completed = c \<rparr>),
       api_deleteTodo = (\<lambda>p i. Inr ()) \<rparr>"

text \<open>The same server out of reach: every call is rejected.\<close>

definition api_down :: api where
  "api_down =
     \<lparr> api_getProjects = Inl ApiFailure,
       api_createProject = (\<lambda>n. Inl ApiFailure),
       api_deleteProject = (\<lambda>p. Inl ApiFailure),
       api_getTodos = (\<lambda>p. Inl ApiFailure),
       api_createTodo = (\<lambda>p t c. Inl ApiFailure),
       api_updateTodo = (\<lambda>p i c. Inl ApiFailure),
       api_deleteTodo = (\<lambda>p i. Inl ApiFailure) \<rparr>"

text \<open>The page after the constructor has run and the user has chosen project 1.\<close>

definition work_open :: state where
  "work_open = changeProject api_up (set_projectSelect_value ''1'' (constructor api_up blank_page))"

text \<open>
  From there the user chooses project 2 while the server is out of reach: the
  \<^verbatim>\<open>getTodos\<close> call of \<^verbatim>\<open>changeProject\<close> is rejected.
\<close>

definition select2_fails :: state where
  "select2_fails = changeProject api_down (set_projectSelect_value ''2'' work_open)"

text \<open>
  A server whose list for a project holds two records with the same id, and the page with
  that list loaded. \<open>milk_done\<close> is the record this server returns when todo 1 is set
  completed.
\<close>

definition milk_again :: todo where
  "milk_again =
     \<lparr> todo_id = IdNum 1, todo_text = js_text ''Buy milk again'', todo_completed = False \<rparr>"

definition milk_done :: todo where
  "milk_done = \<lparr> todo_id = IdNum 1, todo_text = js_text ''Buy milk'', todo_completed = True \<rparr>"

definition api_twins :: api where
  "api_twins = api_up\<lparr> api_getTodos := (\<lambda>p. Inr [buy_milk, milk_again]) \<rparr>"

definition twins_open :: state where
  "twins_open =
     changeProject api_twins (set_projectSelect_value ''1'' (constructor api_twins blank_page))"

section \<open>Decimal numerals\<close>

lemma digit_char_val: "d < 10 \<Longrightarrow> digit_val (digit_char d) = d"
proof -
  assume "d < 10"
  then consider "d = 0" | "d = 1" | "d = 2" | "d = 3" | "d = 4"
    | "d = 5" | "d = 6" | "d = 7" | "d = 8" | "d = 9"
    by atomize_elim arith
  then show ?thesis
    by cases (simp_all add: digit_char_def digit_val_def)
qed

lemma read_nat_snoc: "read_nat (s @ [c]) = 10 * read_nat s + digit_val c"
  by (simp add: read_nat_def)

lemma read_show_nat: "read_nat (show_nat n) = n"
proof (induction n rule: show_nat.induct)
  case (1 n)
  show ?case
  proof (cases "n < 10")
    case True
    then show ?thesis
      by (simp add: show_nat.simps [of n] read_nat_def digit_char_val)
  next
    case False
    with "1" have "read_nat (show_nat (n div 10)) = n div 10"
      by simp
    with False show ?thesis
      by (simp add: show_nat.simps [of n] read_nat_snoc digit_char_val)
  qed
qed

section \<open>Facts about the sample data\<close>

lemmas method_defs = request_def showLoading_def showError_def render_def Let_def

lemma work_open_fields:
  "todos work_open = [buy_milk, call_bob]"
  "currentFilter work_open = ''all''"
  "currentProject work_open = Some ''1''"
  "projectSelect_value work_open = ''1''"
  "projectSelect_options work_open =
     [('''', ''Select Project''), (''1'', ''Work''), (''2'', ''Home'')]"
  "api_log work_open = [GetProjects, GetTodos ''1'']"
  "before_todoList work_open = []"
  "timers work_open = []"
  "clock work_open = 0"
  "next_ref work_open = 0"
  "todoInput_value work_open = []"
  "todoContent_hidden work_open = False"
  by (simp_all add: work_open_def changeProject_def set_projectSelect_value_def constructor_def
      loadProjects_def api_up_def blank_page_def request_def showLoading_def renderProjects_def
      render_def Let_def show_int_def show_nat.simps digit_char_def)

section \<open>Filtering\<close>

lemma spec_filter_pred_funs:
  "spec_filter_pred All = (\<lambda>t. True)"
  "spec_filter_pred Active = (\<lambda>t. \<not> todo_completed t)"
  "spec_filter_pred Completed = todo_completed"
  by (rule ext, simp)+

text \<open>
  Claim C3. For each of the three documented filter values, \<^verbatim>\<open>getFilteredTodos\<close> returns
  exactly the todos that satisfy the value's predicate (active: not completed; completed:
  completed; all: every todo), in the order they have in the todo list.
\<close>

theorem getFilteredTodos_matches_filter:
  "currentFilter s = filter_name f \<Longrightarrow>
     getFilteredTodos s = filter (spec_filter_pred f) (todos s)
     \<and> subseq (getFilteredTodos s) (todos s)"
  by (cases f) (simp_all add: getFilteredTodos_def spec_filter_pred_funs)

theorem getFilteredTodos_matches_filter_witness:
  "getFilteredTodos (work_open\<lparr> currentFilter := ''active'' \<rparr>) = [buy_milk]
   \<and> getFilteredTodos (work_open\<lparr> currentFilter := ''completed'' \<rparr>) = [call_bob]
   \<and> getFilteredTodos (work_open\<lparr> currentFilter := ''all'' \<rparr>) = [buy_milk, call_bob]"
  using getFilteredTodos_matches_filter [of "work_open\<lparr> currentFilter := ''active'' \<rparr>" Active]
    getFilteredTodos_matches_filter [of "work_open\<lparr> currentFilter := ''completed'' \<rparr>" Completed]
    getFilteredTodos_matches_filter [of "work_open\<lparr> currentFilter := ''all'' \<rparr>" All]
  by (simp add: work_open_fields buy_milk_def call_bob_def)

text \<open>
  Claim C9. For every value of \<^verbatim>\<open>currentFilter\<close> other than \<^verbatim>\<open>'active'\<close> and
  \<^verbatim>\<open>'completed'\<close>, whether it is \<^verbatim>\<open>'all'\<close> or any other string, \<^verbatim>\<open>getFilteredTodos\<close> returns
  the whole todo list: the switch takes its default case.
\<close>

theorem getFilteredTodos_default:
  "currentFilter s \<noteq> ''active'' \<Longrightarrow> currentFilter s \<noteq> ''completed'' \<Longrightarrow>
     getFilteredTodos s = todos s"
  by (simp add: getFilteredTodos_def)

theorem getFilteredTodos_default_witness:
  "getFilteredTodos (work_open\<lparr> currentFilter := ''done'' \<rparr>) = [buy_milk, call_bob]
   \<and> getFilteredTodos (work_open\<lparr> currentFilter := ''all'' \<rparr>) = [buy_milk, call_bob]
   \<and> getFilteredTodos (work_open\<lparr> currentFilter := '''' \<rparr>) = [buy_milk, call_bob]"
  using getFilteredTodos_default [of "work_open\<lparr> currentFilter := ''done'' \<rparr>"]
    getFilteredTodos_default [of "work_open\<lparr> currentFilter := ''all'' \<rparr>"]
    getFilteredTodos_default [of "work_open\<lparr> currentFilter := '''' \<rparr>"]
  by (simp add: work_open_fields)

section \<open>The counter\<close>

text \<open>
  Claim C5. After \<^verbatim>\<open>render\<close>, the counter's text is the decimal numeral of the number of
  todos that are not completed, followed by \<^verbatim>\<open>" task left"\<close> when that number is 1 and by
  \<^verbatim>\<open>" tasks left"\<close> for every other number, 0 included.
\<close>

theorem render_taskCount:
  "taskCount_text (render s) =
     show_nat (remaining s) @ (if remaining s = 1 then '' task left'' else '' tasks left'')
   \<and> read_nat (show_nat (remaining s)) = remaining s"
  by (simp add: render_def count_text_def remaining_def read_show_nat Let_def)

theorem render_taskCount_witness:
  "taskCount_text (render work_open) = ''1 task left''
   \<and> taskCount_text (render (work_open\<lparr> todos := [call_bob] \<rparr>)) = ''0 tasks left''
   \<and> taskCount_text (render (work_open\<lparr> todos := [buy_milk, buy_milk] \<rparr>)) = ''2 tasks left''"
  using render_taskCount [of work_open]
    render_taskCount [of "work_open\<lparr> todos := [call_bob] \<rparr>"]
    render_taskCount [of "work_open\<lparr> todos := [buy_milk, buy_milk] \<rparr>"]
  by (simp add: remaining_def work_open_fields buy_milk_def call_bob_def
      show_nat.simps digit_char_def)

section \<open>Changing the project\<close>

text \<open>
  Claim C7. When the project selector's value is the empty string, \<^verbatim>\<open>changeProject\<close>
  hides the todo view and does nothing else: no request is issued (so \<^verbatim>\<open>getTodos\<close> is not
  called) and \<^verbatim>\<open>currentProject\<close>, \<^verbatim>\<open>projects\<close>, \<^verbatim>\<open>todos\<close> and \<^verbatim>\<open>currentFilter\<close> keep
  their values.
\<close>

theorem changeProject_empty_selection:
  "projectSelect_value s = '''' \<Longrightarrow>
     changeProject a s = s\<lparr> todoContent_hidden := True \<rparr>
     \<and> todoContent_hidden (changeProject a s)
     \<and> api_log (changeProject a s) = api_log s
     \<and> currentProject (changeProject a s) = currentProject s
     \<and> projects (changeProject a s) = projects s
     \<and> todos (changeProject a s) = todos s
     \<and> currentFilter (changeProject a s) = currentFilter s"
  by (simp add: changeProject_def)

theorem changeProject_empty_selection_witness:
  "changeProject api_up (set_projectSelect_value '''' work_open)
     = (set_projectSelect_value '''' work_open)\<lparr> todoContent_hidden := True \<rparr>
   \<and> api_log (changeProject api_up (set_projectSelect_value '''' work_open))
       = [GetProjects, GetTodos ''1'']
   \<and> currentProject (changeProject api_up (set_projectSelect_value '''' work_open)) = Some ''1''
   \<and> todos (changeProject api_up (set_projectSelect_value '''' work_open)) = [buy_milk, call_bob]"
  using changeProject_empty_selection [of "set_projectSelect_value '''' work_open" api_up]
  by (simp add: set_projectSelect_value_def work_open_fields)

section \<open>Adding a todo\<close>

text \<open>The code units \<^verbatim>\<open>trim\<close> strips are the white space of the language, no more, no fewer.\<close>

lemma is_ws_iff: "is_ws c \<longleftrightarrow> c \<in> set js_whitespace"
proof
  assume "c \<in> set js_whitespace"
  then show "is_ws c"
    by (auto simp: js_whitespace_def is_ws_def)
next
  assume w: "is_ws c"
  have eq: "c = of_nat (unat c)"
    by simp
  from w consider "unat c = 9" | "unat c = 10" | "unat c = 11" | "unat c = 12" | "unat c = 13"
    | "unat c = 32" | "unat c = 160" | "unat c = 5760"
    | "unat c = 8192" | "unat c = 8193" | "unat c = 8194" | "unat c = 8195" | "unat c = 8196"
    | "unat c = 8197" | "unat c = 8198" | "unat c = 8199" | "unat c = 8200" | "unat c = 8201"
    | "unat c = 8202" | "unat c = 8232" | "unat c = 8233" | "unat c = 8239" | "unat c = 8287"
    | "unat c = 12288" | "unat c = 65279"
    unfolding is_ws_def Let_def by atomize_elim arith
  then show "c \<in> set js_whitespace"
    by cases (subst eq, simp add: js_whitespace_def)+
qed

lemma blank_iff: "blank str \<longleftrightarrow> (\<forall>c\<in>set str. is_ws c)"
  by (simp add: blank_def list_all_iff is_ws_iff)

lemma trim_Nil_iff: "trim str = [] \<longleftrightarrow> blank str"
proof
  assume "trim str = []"
  then have a: "\<forall>c\<in>set (dropWhile is_ws str). is_ws c"
    by (simp add: trim_def dropWhile_eq_Nil_conv)
  have "dropWhile is_ws str = []"
  proof (rule ccontr)
    assume n: "dropWhile is_ws str \<noteq> []"
    then have "\<not> is_ws (hd (dropWhile is_ws str))"
      by (rule hd_dropWhile)
    moreover from n have "hd (dropWhile is_ws str) \<in> set (dropWhile is_ws str)"
      by simp
    ultimately show False using a by blast
  qed
  then show "blank str"
    by (simp add: blank_iff dropWhile_eq_Nil_conv)
next
  assume "blank str"
  then show "trim str = []"
    by (auto simp: blank_iff trim_def dest: set_dropWhileD)
qed

lemma js_text_Nil_iff: "js_text str = [] \<longleftrightarrow> str = []"
  by (simp add: js_text_def)

lemma trim_examples:
  "trim (js_text '' Buy eggs '') = js_text ''Buy eggs''"
  "trim (js_text ''Buy eggs'') = js_text ''Buy eggs''"
  "trim [0x200B] = [0x200B]"
  "trim [0x180E] = [0x180E]"
  by (simp_all add: js_text_def trim_def is_ws_def)

lemma blank_examples:
  "blank js_whitespace"
  "blank [0x2003, 0x3000, 0xFEFF]"
  "blank []"
  "\<not> blank (js_text '' Buy eggs '')"
  "\<not> blank [0x200B]"
  "\<not> blank [0x180E]"
  by (simp_all add: blank_def js_whitespace_def js_text_def)

text \<open>
  Claim C6. When the input text is empty or white space only (any white space that
  \<^verbatim>\<open>trim\<close> strips, the spaces above U+00FF included), or no project is current,
  \<^verbatim>\<open>addTodo\<close> returns the state as it was, request log included: no call, no change.
  Otherwise it issues \<^verbatim>\<open>createTodo\<close> for the current project with the trimmed text and
  \<^verbatim>\<open>completed: false\<close>, and with the record the server returns it appends that record at
  the end of the todo list and empties the input.
\<close>

theorem addTodo_spec:
  "(blank (todoInput_value s) \<or> falsy (currentProject s) \<longrightarrow> addTodo a s = s)
   \<and> (\<not> blank (todoInput_value s) \<and> \<not> falsy (currentProject s) \<longrightarrow>
        api_log (addTodo a s)
          = api_log s @ [CreateTodo (currentProject s) (trim (todoInput_value s)) False]
        \<and> (\<forall>t. api_createTodo a (currentProject s) (trim (todoInput_value s)) False = Inr t \<longrightarrow>
              todos (addTodo a s) = todos s @ [t]
              \<and> todoInput_value (addTodo a s) = []
              \<and> currentProject (addTodo a s) = currentProject s
              \<and> projects (addTodo a s) = projects s
              \<and> currentFilter (addTodo a s) = currentFilter s))"
  by (auto simp: addTodo_def trim_Nil_iff method_defs split: sum.splits)

theorem addTodo_spec_witness:
  "addTodo api_up (work_open\<lparr> todoInput_value := js_whitespace \<rparr>)
     = work_open\<lparr> todoInput_value := js_whitespace \<rparr>
   \<and> addTodo api_up (work_open\<lparr> todoInput_value := [0x2003, 0x3000, 0xFEFF] \<rparr>)
       = work_open\<lparr> todoInput_value := [0x2003, 0x3000, 0xFEFF] \<rparr>
   \<and> addTodo api_up (work_open\<lparr> todoInput_value := [] \<rparr>) = work_open\<lparr> todoInput_value := [] \<rparr>
   \<and> addTodo api_up (blank_page\<lparr> todoInput_value := js_text '' Buy eggs '' \<rparr>)
       = blank_page\<lparr> todoInput_value := js_text '' Buy eggs '' \<rparr>
   \<and> api_log (addTodo api_up (work_open\<lparr> todoInput_value := js_text '' Buy eggs '' \<rparr>))
       = [GetProjects, GetTodos ''1'', CreateTodo (Some ''1'') (js_text ''Buy eggs'') False]
   \<and> todos (addTodo api_up (work_open\<lparr> todoInput_value := js_text '' Buy eggs '' \<rparr>))
       = [buy_milk, call_bob,
          \<lparr> todo_id = IdNum 7, todo_text = js_text ''Buy eggs'', todo_completed = False \<rparr>]
   \<and> todoInput_value (addTodo api_up (work_open\<lparr> todoInput_value := js_text '' Buy eggs '' \<rparr>)) = []
   \<and> api_log (addTodo api_up (work_open\<lparr> todoInput_value := [0x200B] \<rparr>))
       = [GetProjects, GetTodos ''1'', CreateTodo (Some ''1'') [0x200B] False]"
  using addTodo_spec [of "work_open\<lparr> todoInput_value := js_whitespace \<rparr>" api_up]
    addTodo_spec [of "work_open\<lparr> todoInput_value := [0x2003, 0x3000, 0xFEFF] \<rparr>" api_up]
    addTodo_spec [of "work_open\<lparr> todoInput_value := [] \<rparr>" api_up]
    addTodo_spec [of "blank_page\<lparr> todoInput_value := js_text '' Buy eggs '' \<rparr>" api_up]
    addTodo_spec [of "work_open\<lparr> todoInput_value := js_text '' Buy eggs '' \<rparr>" api_up]
    addTodo_spec [of "work_open\<lparr> todoInput_value := [0x200B] \<rparr>" api_up]
  by (simp add: work_open_fields falsy_def blank_examples trim_examples api_up_def blank_page_def)

section \<open>Toggling a todo\<close>

lemma toggleTodo_absent: "\<forall>t\<in>set (todos s). todo_id t \<noteq> i \<Longrightarrow> toggleTodo a i s = s"
proof -
  assume "\<forall>t\<in>set (todos s). todo_id t \<noteq> i"
  then have "find (\<lambda>t. todo_id t = i) (todos s) = None"
    by (simp add: find_None_iff)
  then show ?thesis
    by (simp add: toggleTodo_def)
qed

lemma toggleTodo_updated:
  "find (\<lambda>t. todo_id t = i) (todos s) = Some t \<Longrightarrow>
   api_updateTodo a (currentProject s) i (\<not> todo_completed t) = Inr u \<Longrightarrow>
   todos (toggleTodo a i s) = map (\<lambda>t. if todo_id t = i then u else t) (todos s)"
  by (simp add: toggleTodo_def method_defs)

lemma map_replace_unique:
  assumes "j < length xs" and "P (xs ! j)" and "\<forall>k<length xs. P (xs ! k) \<longrightarrow> k = j"
  shows "map (\<lambda>x. if P x then u else x) xs = xs[j := u]"
proof (rule nth_equalityI)
  show "length (map (\<lambda>x. if P x then u else x) xs) = length (xs[j := u])"
    by simp
next
  fix k
  assume "k < length (map (\<lambda>x. if P x then u else x) xs)"
  then have k: "k < length xs"
    by simp
  show "map (\<lambda>x. if P x then u else x) xs ! k = xs[j := u] ! k"
  proof (cases "k = j")
    case True
    with assms(1,2) show ?thesis by simp
  next
    case False
    with assms(3) k have "\<not> P (xs ! k)" by blast
    with False k show ?thesis by simp
  qed
qed

lemma twins_open_fields:
  "todos twins_open = [buy_milk, milk_again]"
  "currentProject twins_open = Some ''1''"
  by (simp_all add: twins_open_def changeProject_def set_projectSelect_value_def constructor_def
      loadProjects_def api_twins_def api_up_def blank_page_def request_def showLoading_def
      renderProjects_def render_def Let_def show_int_def show_nat.simps digit_char_def)

lemma twins_toggled:
  "todos (toggleTodo api_twins (IdNum 1) twins_open) = [milk_done, milk_done]"
  by (simp add: toggleTodo_def twins_open_fields api_twins_def api_up_def buy_milk_def
      milk_again_def milk_done_def method_defs)

lemma twins_differ: "buy_milk \<noteq> milk_done" "milk_again \<noteq> milk_done"
  by (simp_all add: buy_milk_def milk_again_def milk_done_def)

lemma twins_not_one_entry:
  "\<not> one_entry_replaced [buy_milk, milk_again] [milk_done, milk_done] (IdNum 1) milk_done"
proof
  assume "one_entry_replaced [buy_milk, milk_again] [milk_done, milk_done] (IdNum 1) milk_done"
  then obtain j where len: "j < length [buy_milk, milk_again]"
    and eq: "[milk_done, milk_done] = [buy_milk, milk_again][j := milk_done]"
    unfolding one_entry_replaced_def by blast
  from len have "j < 2"
    by simp
  then consider "j = 0" | "j = 1"
    by atomize_elim arith
  then show False
  proof cases
    case 1
    with eq have "milk_done = milk_again" by simp
    with twins_differ show False by simp
  next
    case 2
    with eq have "milk_done = buy_milk" by simp
    with twins_differ show False by simp
  qed
qed

lemma twins_find:
  "find (\<lambda>t. todo_id t = IdNum 1) (todos twins_open) = Some buy_milk"
  by (simp add: twins_open_fields buy_milk_def)

lemma twins_update:
  "api_updateTodo api_twins (currentProject twins_open) (IdNum 1) (\<not> todo_completed buy_milk)
     = Inr milk_done"
  by (simp add: api_twins_def api_up_def buy_milk_def milk_done_def)

text \<open>
  Claim C4 says that a successful \<^verbatim>\<open>toggleTodo(id)\<close> replaces exactly one entry. The code
  maps over the list and replaces every entry with that id. With two entries of id 1
  loaded, toggling 1 puts the server's record in both places, so the new list is not the
  old one with one entry replaced.
\<close>

theorem toggleTodo_replaces_two_entries:
  "todos twins_open = [buy_milk, milk_again]
   \<and> api_updateTodo api_twins (currentProject twins_open) (IdNum 1) (\<not> todo_completed buy_milk)
       = Inr milk_done
   \<and> todos (toggleTodo api_twins (IdNum 1) twins_open) = [milk_done, milk_done]
   \<and> buy_milk \<noteq> milk_done \<and> milk_again \<noteq> milk_done
   \<and> \<not> one_entry_replaced (todos twins_open) (todos (toggleTodo api_twins (IdNum 1) twins_open))
         (IdNum 1) milk_done"
  using twins_not_one_entry twins_differ twins_update
  by (simp only: twins_toggled twins_open_fields simp_thms)

text \<open>
  Claim C4, amended. \<^verbatim>\<open>toggleTodo(id)\<close> returns the state as it was when no todo of the
  list has that id. When it succeeds, the list keeps its length, every entry whose id
  matches is replaced by the record the server returns, and every other entry keeps its
  value and its position; when the id occurs exactly once in the list, exactly one entry
  is replaced.
\<close>

theorem toggleTodo_replaces_every_match:
  "((\<forall>t\<in>set (todos s). todo_id t \<noteq> i) \<longrightarrow> toggleTodo a i s = s)
   \<and> (find (\<lambda>t. todo_id t = i) (todos s) = Some t
        \<and> api_updateTodo a (currentProject s) i (\<not> todo_completed t) = Inr u \<longrightarrow>
        length (todos (toggleTodo a i s)) = length (todos s)
        \<and> (\<forall>k<length (todos s).
              todos (toggleTodo a i s) ! k
                = (if todo_id (todos s ! k) = i then u else todos s ! k))
        \<and> ((\<exists>!k. k < length (todos s) \<and> todo_id (todos s ! k) = i) \<longrightarrow>
              one_entry_replaced (todos s) (todos (toggleTodo a i s)) i u))"
proof (intro conjI impI)
  assume "\<forall>t\<in>set (todos s). todo_id t \<noteq> i"
  then show "toggleTodo a i s = s"
    by (rule toggleTodo_absent)
next
  assume h: "find (\<lambda>t. todo_id t = i) (todos s) = Some t
    \<and> api_updateTodo a (currentProject s) i (\<not> todo_completed t) = Inr u"
  then have eq: "todos (toggleTodo a i s) = map (\<lambda>t. if todo_id t = i then u else t) (todos s)"
    by (simp add: toggleTodo_updated)
  show "length (todos (toggleTodo a i s)) = length (todos s)"
    by (simp add: eq)
  show "\<forall>k<length (todos s).
      todos (toggleTodo a i s) ! k = (if todo_id (todos s ! k) = i then u else todos s ! k)"
    by (simp add: eq)
  assume "\<exists>!k. k < length (todos s) \<and> todo_id (todos s ! k) = i"
  then obtain j where j: "j < length (todos s)" "todo_id (todos s ! j) = i"
    and only: "\<forall>k<length (todos s). todo_id (todos s ! k) = i \<longrightarrow> k = j"
    unfolding Ex1_def by blast
  from j(1) have "map (\<lambda>t. if todo_id t = i then u else t) (todos s) = (todos s)[j := u]"
  proof (rule map_replace_unique)
    show "todo_id (todos s ! j) = i"
      by (rule j(2))
    show "\<forall>k<length (todos s). todo_id (todos s ! k) = i \<longrightarrow> k = j"
      by (rule only)
  qed
  with eq have "todos (toggleTodo a i s) = (todos s)[j := u]"
    by (rule trans)
  with j show "one_entry_replaced (todos s) (todos (toggleTodo a i s)) i u"
    unfolding one_entry_replaced_def by blast
qed

lemma work_open_one_match:
  "\<exists>!k. k < length (todos work_open) \<and> todo_id (todos work_open ! k) = IdNum 1"
proof (rule ex1I [of _ 0])
  show "0 < length (todos work_open) \<and> todo_id (todos work_open ! 0) = IdNum 1"
    by (simp add: work_open_fields buy_milk_def)
next
  fix k
  assume k: "k < length (todos work_open) \<and> todo_id (todos work_open ! k) = IdNum 1"
  then have "k < 2"
    by (simp add: work_open_fields)
  then consider "k = 0" | "k = 1"
    by atomize_elim arith
  then show "k = 0"
  proof cases
    case 1
    then show ?thesis .
  next
    case 2
    with k show ?thesis
      by (simp add: work_open_fields call_bob_def)
  qed
qed

lemma work_open_toggle_facts:
  "\<forall>t\<in>set (todos work_open). todo_id t \<noteq> IdNum 9"
  "find (\<lambda>t. todo_id t = IdNum 1) (todos work_open) = Some buy_milk"
  "api_updateTodo api_up (currentProject work_open) (IdNum 1) (\<not> todo_completed buy_milk)
     = Inr milk_done"
  by (simp_all add: work_open_fields buy_milk_def call_bob_def milk_done_def api_up_def)

theorem toggleTodo_replaces_every_match_witness:
  "toggleTodo api_up (IdNum 9) work_open = work_open
   \<and> length (todos (toggleTodo api_up (IdNum 1) work_open)) = 2
   \<and> todos (toggleTodo api_up (IdNum 1) work_open) ! 0 = milk_done
   \<and> todos (toggleTodo api_up (IdNum 1) work_open) ! 1 = call_bob
   \<and> one_entry_replaced (todos work_open) (todos (toggleTodo api_up (IdNum 1) work_open))
        (IdNum 1) milk_done
   \<and> length (todos (toggleTodo api_twins (IdNum 1) twins_open)) = 2
   \<and> todos (toggleTodo api_twins (IdNum 1) twins_open) ! 0 = milk_done
   \<and> todos (toggleTodo api_twins (IdNum 1) twins_open) ! 1 = milk_done"
proof -
  note absent = toggleTodo_replaces_every_match
    [where s = work_open and i = "IdNum 9" and a = api_up]
  note one = toggleTodo_replaces_every_match
    [where s = work_open and i = "IdNum 1" and a = api_up and t = buy_milk and u = milk_done]
  note two = toggleTodo_replaces_every_match
    [where s = twins_open and i = "IdNum 1" and a = api_twins and t = buy_milk and u = milk_done]
  from absent work_open_toggle_facts(1)
  have a: "toggleTodo api_up (IdNum 9) work_open = work_open"
    by blast
  from one work_open_toggle_facts(2,3)
  have len1: "length (todos (toggleTodo api_up (IdNum 1) work_open)) = length (todos work_open)"
    and nth1: "\<forall>k<length (todos work_open).
      todos (toggleTodo api_up (IdNum 1) work_open) ! k
        = (if todo_id (todos work_open ! k) = IdNum 1 then milk_done else todos work_open ! k)"
    by blast+
  from one work_open_toggle_facts(2,3) work_open_one_match
  have r: "one_entry_replaced (todos work_open) (todos (toggleTodo api_up (IdNum 1) work_open))
      (IdNum 1) milk_done"
    by blast
  from two twins_find twins_update
  have len2: "length (todos (toggleTodo api_twins (IdNum 1) twins_open)) = length (todos twins_open)"
    and nth2: "\<forall>k<length (todos twins_open).
      todos (toggleTodo api_twins (IdNum 1) twins_open) ! k
        = (if todo_id (todos twins_open ! k) = IdNum 1 then milk_done else todos twins_open ! k)"
    by blast+
  from nth1 have "todos (toggleTodo api_up (IdNum 1) work_open) ! 0 = milk_done"
    and "todos (toggleTodo api_up (IdNum 1) work_open) ! 1 = call_bob"
    by (simp_all add: work_open_fields buy_milk_def call_bob_def)
  moreover from nth2 have "todos (toggleTodo api_twins (IdNum 1) twins_open) ! 0 = milk_done"
    and "todos (toggleTodo api_twins (IdNum 1) twins_open) ! 1 = milk_done"
    by (simp_all add: twins_open_fields buy_milk_def milk_again_def)
  moreover from len1 have "length (todos (toggleTodo api_up (IdNum 1) work_open)) = 2"
    by (simp add: work_open_fields)
  moreover from len2 have "length (todos (toggleTodo api_twins (IdNum 1) twins_open)) = 2"
    by (simp add: twins_open_fields)
  ultimately show ?thesis
    using a r by blast
qed

section \<open>Deleting a todo\<close>

lemma filter_absent: "\<forall>t\<in>set xs. todo_id t \<noteq> i \<Longrightarrow> filter (\<lambda>t. todo_id t \<noteq> i) xs = xs"
  by (simp add: filter_id_conv)

text \<open>
  Claim C10. \<^verbatim>\<open>deleteTodo(id)\<close> does not look the id up first. For an id that no todo of
  the list has, it still issues the \<^verbatim>\<open>deleteTodo\<close> call; when the call succeeds the todo
  list is the same and \<^verbatim>\<open>render\<close> has run all the same (the rows and the counter are
  written from the state). \<^verbatim>\<open>toggleTodo\<close> on such an id returns at once: same state, no call.
\<close>

theorem deleteTodo_absent_id:
  "\<forall>t\<in>set (todos s). todo_id t \<noteq> i \<Longrightarrow>
     api_log (deleteTodo a i s) = api_log s @ [DeleteTodo (currentProject s) i]
     \<and> (api_deleteTodo a (currentProject s) i = Inr () \<longrightarrow>
          todos (deleteTodo a i s) = todos s
          \<and> deleteTodo a i s
              = showLoading False
                  (render (request (DeleteTodo (currentProject s) i) (showLoading True s)))
          \<and> todoList_rows (deleteTodo a i s) = map render_row (getFilteredTodos s)
          \<and> taskCount_text (deleteTodo a i s) = count_text (remaining s))
     \<and> toggleTodo a i s = s
     \<and> api_log (toggleTodo a i s) = api_log s"
proof -
  assume absent: "\<forall>t\<in>set (todos s). todo_id t \<noteq> i"
  let ?s1 = "request (DeleteTodo (currentProject s) i) (showLoading True s)"
  have log: "api_log (deleteTodo a i s) = api_log s @ [DeleteTodo (currentProject s) i]"
    by (cases "api_deleteTodo a (currentProject s) i") (simp_all add: deleteTodo_def method_defs)
  have same: "?s1\<lparr> todos := filter (\<lambda>t. todo_id t \<noteq> i) (todos ?s1) \<rparr> = ?s1"
    using absent by (simp add: filter_absent request_def showLoading_def)
  have ok: "deleteTodo a i s = showLoading False (render ?s1)"
    if "api_deleteTodo a (currentProject s) i = Inr ()"
    using that same by (simp add: deleteTodo_def Let_def)
  have rows: "todoList_rows (showLoading False (render ?s1)) = map render_row (getFilteredTodos s)"
    by (simp add: method_defs getFilteredTodos_def)
  have count: "taskCount_text (showLoading False (render ?s1)) = count_text (remaining s)"
    by (simp add: method_defs remaining_def)
  have td: "todos (showLoading False (render ?s1)) = todos s"
    by (simp add: method_defs)
  from log ok rows count td toggleTodo_absent [OF absent] show ?thesis
    by simp
qed


theorem deleteTodo_absent_id_witness:
  "api_log (deleteTodo api_up (IdNum 9) (work_open\<lparr> todoList_rows := [], taskCount_text := '''' \<rparr>))
     = [GetProjects, GetTodos ''1'', DeleteTodo (Some ''1'') (IdNum 9)]
   \<and> todos (deleteTodo api_up (IdNum 9) (work_open\<lparr> todoList_rows := [], taskCount_text := '''' \<rparr>))
     = [buy_milk, call_bob]
   \<and> todoList_rows (deleteTodo api_up (IdNum 9) (work_open\<lparr> todoList_rows := [], taskCount_text := '''' \<rparr>))
     = [render_row buy_milk, render_row call_bob]
   \<and> taskCount_text (deleteTodo api_up (IdNum 9) (work_open\<lparr> todoList_rows := [], taskCount_text := '''' \<rparr>))
     = ''1 task left''
   \<and> toggleTodo api_up (IdNum 9) (work_open\<lparr> todoList_rows := [], taskCount_text := '''' \<rparr>)
     = work_open\<lparr> todoList_rows := [], taskCount_text := '''' \<rparr>"
  using deleteTodo_absent_id [of "work_open\<lparr> todoList_rows := [], taskCount_text := '''' \<rparr>"
      "IdNum 9" api_up]
  by (simp add: work_open_fields buy_milk_def call_bob_def api_up_def getFilteredTodos_def
      remaining_def count_text_def show_nat.simps digit_char_def method_defs)

subsection \<open>A rejected call\<close>

lemma deleteTodo_rejected_state:
  "api_deleteTodo a (currentProject s) i = Inl e \<Longrightarrow>
   deleteTodo a i s =
     showLoading False
       (showError ''Failed to delete todo''
          (request (DeleteTodo (currentProject s) i) (showLoading True s)))"
  by (simp add: deleteTodo_def Let_def)

lemma showError_fields:
  "before_todoList (showError m s) = before_todoList s @ [error_banner (next_ref s) m]"
  "timers (showError m s) = timers s @ [(clock s + 3000, next_ref s)]"
  "clock (showError m s) = clock s"
  "next_ref (showError m s) = Suc (next_ref s)"
  "view_state (showError m s) = view_state s"
  "api_log (showError m s) = api_log s"
  by (simp_all add: showError_def error_banner_def view_state_def Let_def)

lemma advance_before_todoList:
  "before_todoList (advance ms s) =
     filter (\<lambda>e. elem_ref e \<notin> due_refs (clock s + ms) s) (before_todoList s)"
  by (simp add: advance_def run_timers_def is_due_def due_refs_def Let_def)

lemma filter_drops_ref: "r \<in> D \<Longrightarrow> r \<notin> f ` set (filter (\<lambda>e. f e \<notin> D) xs)"
  by auto

text \<open>
  Claim C8. When the \<^verbatim>\<open>deleteTodo\<close> call is rejected, the todo list (and the rest of the
  view state) is unchanged, a banner of class \<^verbatim>\<open>error\<close> with the fixed text
  \<^verbatim>\<open>Failed to delete todo\<close> stands immediately before the list, and a timer of 3000 ms is
  set to remove it: once 3000 ms or more have passed the banner is gone, and, references
  being fresh, it is still there at any earlier time.
\<close>

theorem deleteTodo_failure:
  "api_deleteTodo a (currentProject s) i = Inl e \<Longrightarrow>
     todos (deleteTodo a i s) = todos s
     \<and> view_state (deleteTodo a i s) = view_state s
     \<and> before_todoList (deleteTodo a i s)
         = before_todoList s @ [error_banner (next_ref s) ''Failed to delete todo'']
     \<and> timers (deleteTodo a i s) = timers s @ [(clock s + 3000, next_ref s)]
     \<and> (\<forall>ms. 3000 \<le> ms \<longrightarrow>
           next_ref s \<notin> elem_ref ` set (before_todoList (advance ms (deleteTodo a i s))))
     \<and> (refs_fresh s \<longrightarrow>
          (\<forall>ms<3000.
             error_banner (next_ref s) ''Failed to delete todo''
               \<in> set (before_todoList (advance ms (deleteTodo a i s)))))"
proof -
  assume fail: "api_deleteTodo a (currentProject s) i = Inl e"
  let ?s' = "deleteTodo a i s"
  let ?b = "error_banner (next_ref s) ''Failed to delete todo''"
  have b: "before_todoList ?s' = before_todoList s @ [?b]"
    by (simp add: deleteTodo_rejected_state [OF fail] showLoading_def request_def showError_fields)
  have t: "timers ?s' = timers s @ [(clock s + 3000, next_ref s)]"
    by (simp add: deleteTodo_rejected_state [OF fail] showLoading_def request_def showError_fields)
  have c: "clock ?s' = clock s"
    by (simp add: deleteTodo_rejected_state [OF fail] showLoading_def request_def showError_fields)
  have v: "view_state ?s' = view_state s"
    by (simp add: deleteTodo_rejected_state [OF fail] showLoading_def request_def showError_def
        view_state_def Let_def)
  then have td: "todos ?s' = todos s"
    by (simp add: view_state_def)
  have gone: "next_ref s \<notin> elem_ref ` set (before_todoList (advance ms ?s'))"
    if "3000 \<le> ms" for ms
  proof -
    from that have "(clock s + 3000, next_ref s) \<in> {x \<in> set (timers ?s'). fst x \<le> clock ?s' + ms}"
      by (simp add: t c)
    then have "next_ref s \<in> due_refs (clock ?s' + ms) ?s'"
      unfolding due_refs_def by force
    then show ?thesis
      unfolding advance_before_todoList by (rule filter_drops_ref)
  qed
  have stays: "?b \<in> set (before_todoList (advance ms ?s'))"
    if fresh: "refs_fresh s" and ms: "ms < 3000" for ms
  proof -
    have "next_ref s \<notin> due_refs (clock ?s' + ms) ?s'"
      using fresh ms by (auto simp: due_refs_def t c refs_fresh_def list_all_iff)
    then show ?thesis
      by (simp add: advance_before_todoList b error_banner_def)
  qed
  from b t v td gone stays show ?thesis
    by blast
qed

lemma refs_fresh_work_open: "refs_fresh work_open"
  by (simp add: refs_fresh_def work_open_fields)

theorem deleteTodo_failure_witness:
  "todos (deleteTodo api_down (IdNum 1) work_open) = [buy_milk, call_bob]
   \<and> before_todoList (deleteTodo api_down (IdNum 1) work_open)
       = [\<lparr> elem_ref = 0, elem_className = ''error'',
            elem_textContent = ''Failed to delete todo'' \<rparr>]
   \<and> timers (deleteTodo api_down (IdNum 1) work_open) = [(3000, 0)]
   \<and> 0 \<notin> elem_ref ` set (before_todoList (advance 3000 (deleteTodo api_down (IdNum 1) work_open)))
   \<and> \<lparr> elem_ref = 0, elem_className = ''error'', elem_textContent = ''Failed to delete todo'' \<rparr>
       \<in> set (before_todoList (advance 2999 (deleteTodo api_down (IdNum 1) work_open)))"
  using deleteTodo_failure [of api_down work_open "IdNum 1" ApiFailure]
  by (simp add: api_down_def work_open_fields refs_fresh_work_open error_banner_def)

section \<open>Rejected calls and the view state\<close>

lemma loadProjects_rejected:
  "api_getProjects a = Inl e \<Longrightarrow> view_state (loadProjects a s) = view_state s"
  by (simp add: loadProjects_def view_state_def method_defs)

lemma createProject_rejected:
  "api_createProject a n = Inl e \<Longrightarrow> view_state (createProject a (Some n) s) = view_state s"
  by (simp add: createProject_def view_state_def method_defs)

lemma deleteProject_rejected:
  "api_deleteProject a (currentProject s) = Inl e \<Longrightarrow>
   view_state (deleteProject a c s) = view_state s"
  by (simp add: deleteProject_def view_state_def method_defs)

lemma addTodo_rejected:
  "api_createTodo a (currentProject s) (trim (todoInput_value s)) False = Inl e \<Longrightarrow>
   view_state (addTodo a s) = view_state s"
  by (simp add: addTodo_def view_state_def method_defs)

lemma toggleTodo_rejected:
  "\<forall>c. api_updateTodo a (currentProject s) i c = Inl e \<Longrightarrow>
   view_state (toggleTodo a i s) = view_state s"
  by (simp add: toggleTodo_def view_state_def method_defs split: option.splits)

lemma deleteTodo_rejected:
  "api_deleteTodo a (currentProject s) i = Inl e \<Longrightarrow>
   view_state (deleteTodo a i s) = view_state s"
  by (simp add: deleteTodo_def view_state_def method_defs)

lemma changeProject_rejected:
  "projectSelect_value s \<noteq> '''' \<Longrightarrow> api_getTodos a (projectSelect_value s) = Inl e \<Longrightarrow>
   view_state (changeProject a s)
     = (Some (projectSelect_value s), projects s, todos s, currentFilter s)"
  by (simp add: changeProject_def view_state_def method_defs)

lemma changeProject_fetched:
  "projectSelect_value s \<noteq> '''' \<Longrightarrow> api_getTodos a (projectSelect_value s) = Inr ts \<Longrightarrow>
   currentProject (changeProject a s) = Some (projectSelect_value s)
   \<and> todos (changeProject a s) = ts
   \<and> \<not> todoContent_hidden (changeProject a s)"
  by (simp add: changeProject_def method_defs)

lemma deleteProject_done:
  "\<not> falsy (currentProject s) \<Longrightarrow> api_deleteProject a (currentProject s) = Inr () \<Longrightarrow>
   currentProject (deleteProject a True s) = None
   \<and> todoContent_hidden (deleteProject a True s)
   \<and> todos (deleteProject a True s) = todos s"
  by (simp add: deleteProject_def renderProjects_def method_defs)

text \<open>
  Claim C1. A failed API call is to leave \<^verbatim>\<open>projects\<close>, \<^verbatim>\<open>currentProject\<close>, \<^verbatim>\<open>todos\<close> and
  \<^verbatim>\<open>currentFilter\<close> as they were. \<^verbatim>\<open>changeProject\<close> does not: it assigns
  \<^verbatim>\<open>currentProject\<close> before it awaits \<^verbatim>\<open>getTodos\<close>. With project 1 open, choosing project 2
  while the call is rejected leaves \<^verbatim>\<open>currentProject\<close> at \<^verbatim>\<open>"2"\<close>, the other three fields
  as before.
\<close>

theorem changeProject_failure_changes_view_state:
  "view_state (set_projectSelect_value ''2'' work_open)
     = (Some ''1'',
        [\<lparr> project_id = IdNum 1, project_name = ''Work'' \<rparr>,
         \<lparr> project_id = IdNum 2, project_name = ''Home'' \<rparr>],
        [buy_milk, call_bob], ''all'')
   \<and> api_getTodos api_down ''2'' = Inl ApiFailure
   \<and> view_state (changeProject api_down (set_projectSelect_value ''2'' work_open))
     = (Some ''2'',
        [\<lparr> project_id = IdNum 1, project_name = ''Work'' \<rparr>,
         \<lparr> project_id = IdNum 2, project_name = ''Home'' \<rparr>],
        [buy_milk, call_bob], ''all'')"
  by (simp add: view_state_def changeProject_def set_projectSelect_value_def work_open_def
      constructor_def loadProjects_def renderProjects_def api_up_def api_down_def blank_page_def
      method_defs show_int_def show_nat.simps digit_char_def)

lemma select2_fails_fields:
  "currentProject select2_fails = Some ''2''"
  "todos select2_fails = [buy_milk, call_bob]"
  "todoContent_hidden select2_fails = False"
  "api_log select2_fails = [GetProjects, GetTodos ''1'', GetTodos ''2'']"
  by (simp_all add: select2_fails_def changeProject_def set_projectSelect_value_def
      work_open_fields api_down_def method_defs)

text \<open>
  Claim C2. The todo list in memory is to be the list of the current project after every
  operation, \<^verbatim>\<open>changeProject\<close> that fails included. In the run below the server holds two
  todos for project 1 and none for project 2. After the failed change to project 2 the
  current project is \<^verbatim>\<open>"2"\<close>, the list in memory is still that of project 1, and the todo
  view still shows; a todo added next is created under project 2 and appended to the list
  of project 1.
\<close>

theorem failed_changeProject_keeps_other_projects_todos:
  "api_getTodos api_up ''1'' = Inr [buy_milk, call_bob]
   \<and> api_getTodos api_up ''2'' = Inr []
   \<and> todos work_open = [buy_milk, call_bob]
   \<and> currentProject work_open = Some ''1''
   \<and> currentProject select2_fails = Some ''2''
   \<and> todos select2_fails = [buy_milk, call_bob]
   \<and> todoContent_hidden select2_fails = False
   \<and> api_log (addTodo api_up (select2_fails\<lparr> todoInput_value := js_text ''Buy eggs'' \<rparr>))
       = [GetProjects, GetTodos ''1'', GetTodos ''2'', CreateTodo (Some ''2'') (js_text ''Buy eggs'') False]
   \<and> todos (addTodo api_up (select2_fails\<lparr> todoInput_value := js_text ''Buy eggs'' \<rparr>))
       = [buy_milk, call_bob,
          \<lparr> todo_id = IdNum 7, todo_text = js_text ''Buy eggs'', todo_completed = False \<rparr>]"
  by (simp add: select2_fails_fields work_open_fields api_up_def addTodo_def trim_examples
      js_text_Nil_iff falsy_def method_defs)

section \<open>Reachable states\<close>

lemma state_ok_showError: "state_ok s \<Longrightarrow> state_ok (showError m s)"
  by (auto simp: state_ok_def refs_fresh_def showError_def Let_def list_all_iff)

lemma state_ok_showLoading: "state_ok (showLoading b s) = state_ok s"
  by (simp add: state_ok_def refs_fresh_def showLoading_def)

lemma state_ok_request: "state_ok (request c s) = state_ok s"
  by (simp add: state_ok_def refs_fresh_def request_def)

lemma state_ok_render: "state_ok (render s) = state_ok s"
  by (simp add: state_ok_def refs_fresh_def render_def Let_def)

lemma state_ok_renderProjects: "state_ok (renderProjects s) = state_ok s"
  by (simp add: state_ok_def refs_fresh_def renderProjects_def)

lemma state_ok_updates:
  "state_ok (s\<lparr> todos := ts \<rparr>) = state_ok s"
  "state_ok (s\<lparr> projects := ps \<rparr>) = state_ok s"
  "state_ok (s\<lparr> todoInput_value := v \<rparr>) = state_ok s"
  "state_ok (s\<lparr> todoContent_hidden := b \<rparr>) = state_ok s"
  "state_ok (s\<lparr> currentFilter := f \<rparr>) = state_ok s"
  "state_ok (s\<lparr> filterButtons := fb \<rparr>) = state_ok s"
  "state_ok (s\<lparr> projectSelect_value := pv \<rparr>) = state_ok s"
  by (simp_all add: state_ok_def refs_fresh_def)

lemmas state_ok_simps =
  state_ok_showLoading state_ok_request state_ok_render state_ok_renderProjects state_ok_updates

lemma state_ok_loadProjects: "state_ok s \<Longrightarrow> state_ok (loadProjects a s)"
  by (simp add: loadProjects_def Let_def state_ok_simps state_ok_showError split: sum.splits)

lemma state_ok_changeProject: "state_ok s \<Longrightarrow> state_ok (changeProject a s)"
proof (cases "projectSelect_value s = ''''")
  case True
  assume "state_ok s"
  with True show ?thesis
    by (simp add: changeProject_def state_ok_simps)
next
  case False
  assume "state_ok s"
  then have "state_ok ((showLoading True s)\<lparr> currentProject := Some (projectSelect_value s) \<rparr>)"
    using False by (simp add: state_ok_def refs_fresh_def showLoading_def)
  with False show ?thesis
    by (simp add: changeProject_def Let_def state_ok_simps state_ok_showError split: sum.splits)
qed

lemma state_ok_set_projectSelect_value: "state_ok s \<Longrightarrow> state_ok (set_projectSelect_value v s)"
  by (simp add: set_projectSelect_value_def state_ok_simps)

lemma state_ok_createProject: "state_ok s \<Longrightarrow> state_ok (createProject a name s)"
  by (simp add: createProject_def Let_def state_ok_simps state_ok_showError state_ok_changeProject
      state_ok_set_projectSelect_value split: sum.splits option.splits)

lemma state_ok_deleteProject: "state_ok s \<Longrightarrow> state_ok (deleteProject a c s)"
proof -
  assume i: "state_ok s"
  then have "state_ok (s'\<lparr> currentProject := None \<rparr>)" if "state_ok s'" for s'
    using that by (simp add: state_ok_def refs_fresh_def)
  with i show ?thesis
    by (simp add: deleteProject_def Let_def state_ok_simps state_ok_showError split: sum.splits)
qed

lemma state_ok_addTodo: "state_ok s \<Longrightarrow> state_ok (addTodo a s)"
  by (simp add: addTodo_def Let_def state_ok_simps state_ok_showError split: sum.splits)

lemma state_ok_toggleTodo: "state_ok s \<Longrightarrow> state_ok (toggleTodo a i s)"
  by (simp add: toggleTodo_def Let_def state_ok_simps state_ok_showError split: sum.splits option.splits)

lemma state_ok_deleteTodo: "state_ok s \<Longrightarrow> state_ok (deleteTodo a i s)"
  by (simp add: deleteTodo_def Let_def state_ok_simps state_ok_showError split: sum.splits)

lemma state_ok_setFilter: "state_ok s \<Longrightarrow> state_ok (setFilter f s)"
  by (simp add: setFilter_def state_ok_simps)

lemma state_ok_advance: "state_ok s \<Longrightarrow> state_ok (advance ms s)"
  by (auto simp: state_ok_def refs_fresh_def advance_def run_timers_def Let_def list_all_iff)

lemma state_ok_constructor: "refs_fresh page \<Longrightarrow> state_ok (constructor a page)"
proof -
  assume "refs_fresh page"
  then have "state_ok (page\<lparr> currentProject := None, projects := [], todos := [],
      currentFilter := ''all'' \<rparr>)"
    by (simp add: state_ok_def refs_fresh_def)
  then show ?thesis
    unfolding constructor_def by (rule state_ok_loadProjects)
qed

lemma reachable_state_ok: "reachable s \<Longrightarrow> state_ok s"
proof (induction rule: reachable.induct)
  case (start page a)
  then show ?case by (simp add: state_ok_constructor)
next
  case (typing s v)
  then show ?case by (simp add: state_ok_simps)
next
  case (selecting s v)
  then show ?case by (simp add: state_ok_set_projectSelect_value)
next
  case (waiting s ms)
  then show ?case by (simp add: state_ok_advance)
next
  case (createProject s a name)
  then show ?case by (simp add: state_ok_createProject)
next
  case (deleteProject s a confirmed)
  then show ?case by (simp add: state_ok_deleteProject)
next
  case (changeProject s a)
  then show ?case by (simp add: state_ok_changeProject)
next
  case (addTodo s a)
  then show ?case by (simp add: state_ok_addTodo)
next
  case (toggleTodo s a i)
  then show ?case by (simp add: state_ok_toggleTodo)
next
  case (deleteTodo s a i)
  then show ?case by (simp add: state_ok_deleteTodo)
next
  case (setFilter s f)
  then show ?case by (simp add: state_ok_setFilter)
qed

text \<open>The sample states are states the page can be in.\<close>

lemma reachable_work_open: "reachable work_open"
  unfolding work_open_def
  by (intro reachable.changeProject reachable.selecting reachable.start)
     (simp add: refs_fresh_def blank_page_def)

lemma reachable_twins_open: "reachable twins_open"
  unfolding twins_open_def
  by (intro reachable.changeProject reachable.selecting reachable.start)
     (simp add: refs_fresh_def blank_page_def)

lemma reachable_select2_fails: "reachable select2_fails"
  unfolding select2_fails_def
  by (intro reachable.changeProject reachable.selecting reachable_work_open)

text \<open>
  In a reachable state references are fresh, and the test \<^verbatim>\<open>!this.currentProject\<close>
  succeeds exactly when no project is current.
\<close>

lemma reachable_refs_fresh: "reachable s \<Longrightarrow> refs_fresh s"
  using reachable_state_ok [of s] by (simp add: state_ok_def)

lemma reachable_falsy_currentProject:
  "reachable s \<Longrightarrow> falsy (currentProject s) = (currentProject s = None)"
  using reachable_state_ok [of s] by (auto simp: state_ok_def falsy_def)

end
